theory Spec2Isabelle
  imports Main "HOL-Library.Word"
begin

section \<open>The kernel as seen from the OCJS helpers\<close>

text \<open>
  The helpers in \<^verbatim>\<open>src/builds/shared\<close> are thin C++ wrappers around calls into the
  modelling kernel. The kernel itself (shapes, writers, static controllers) is not part
  of these files, so it is a parameter of the model: a record holding one function per
  kernel entry point that the helpers call. Each entry point reads and may change the
  process-wide static state \<open>'g\<close>, and either returns a value or throws a
  \<open>Standard_Failure\<close>.
\<close>

type_synonym Standard_Integer = "32 word"

text \<open>The five transfer modes listed in the comment above \<^verbatim>\<open>STEP_WriteToString\<close>.\<close>

datatype STEPControl_StepModelType =
    STEPControl_AsIs
  | STEPControl_ManifoldSolidBrep
  | STEPControl_FacetedBrep
  | STEPControl_ShellBasedSurfaceModel
  | STEPControl_GeometricCurveSet

text \<open>
  The status enumeration of the kernel. The helpers only compare against
  \<open>IFSelect_RetDone\<close>; the other values stand for every status that is not "done".
\<close>

datatype IFSelect_ReturnStatus =
    IFSelect_RetVoid
  | IFSelect_RetDone
  | IFSelect_RetError
  | IFSelect_RetFail
  | IFSelect_RetStop

text \<open>
  Modelled from the spec: the class \<^verbatim>\<open>Standard_Failure\<close> is declared by the kernel, outside
  \<^verbatim>\<open>src/\<close>. The spec says that a failure exposes at minimum its message text and its
  dynamic type (category); these are the two fields.
\<close>

record Standard_Failure =
  GetMessageString :: string
  DynamicType :: string

text \<open>A \<^verbatim>\<open>std::ostringstream\<close>: an in-memory sink; \<open>str\<close> reads what it has accumulated.\<close>

datatype ostringstream = ostringstream (str: string)

type_synonym ('a, 'g) kernel_fn = "'g \<Rightarrow> (Standard_Failure + 'a) \<times> 'g"

record ('sh, 'g, 'sw, 'iw) kernel =
  BRepTools_Write :: "'sh \<Rightarrow> ostringstream \<Rightarrow> (ostringstream, 'g) kernel_fn"
  TopoDS_Shape_DumpJson ::
    "'sh \<Rightarrow> ostringstream \<Rightarrow> Standard_Integer \<Rightarrow> (ostringstream, 'g) kernel_fn"
  IGESControl_Controller_Init :: "(bool, 'g) kernel_fn"
  IGESControl_Writer_new :: "('iw, 'g) kernel_fn"
  IGESControl_Writer_AddShape :: "'iw \<Rightarrow> 'sh \<Rightarrow> (bool \<times> 'iw, 'g) kernel_fn"
  IGESControl_Writer_ComputeModel :: "'iw \<Rightarrow> ('iw, 'g) kernel_fn"
  IGESControl_Writer_Write ::
    "'iw \<Rightarrow> ostringstream \<Rightarrow> bool \<Rightarrow> (bool \<times> 'iw \<times> ostringstream, 'g) kernel_fn"
  STEPControl_Writer_new :: "('sw, 'g) kernel_fn"
  STEPControl_Writer_Transfer ::
    "'sw \<Rightarrow> 'sh \<Rightarrow> STEPControl_StepModelType \<Rightarrow> (IFSelect_ReturnStatus \<times> 'sw, 'g) kernel_fn"
  STEPControl_Writer_WriteStream ::
    "'sw \<Rightarrow> ostringstream \<Rightarrow> (IFSelect_ReturnStatus \<times> 'sw \<times> ostringstream, 'g) kernel_fn"

text \<open>
  What a helper does to the outside world is the sequence of kernel calls and object
  constructions it performs. Each is recorded with the arguments it was given: the
  receiver (the writer's state at the time of the call), the shape, and the sink.
\<close>

datatype ('sh, 'sw, 'iw) kernel_call =
    Call_BRepTools_Write 'sh ostringstream
  | Call_DumpJson 'sh ostringstream Standard_Integer
  | Call_IGESControl_Controller_Init
  | New_IGESControl_Writer
  | Call_AddShape 'iw 'sh
  | Call_ComputeModel 'iw
  | Call_IGES_Write 'iw ostringstream bool
  | New_STEPControl_Writer
  | Call_Transfer 'sw 'sh STEPControl_StepModelType
  | Call_WriteStream 'sw ostringstream
  | New_ostringstream

section \<open>Computations: static state, exceptions, and the calls made\<close>

text \<open>
  A helper is a function of the static state. It yields its outcome (\<open>Inl\<close> a thrown
  failure, \<open>Inr\<close> the value returned), the static state it leaves, and the kernel calls
  it made, in order. Locals (\<^verbatim>\<open>writer\<close>, \<^verbatim>\<open>ss\<close>) are bound values and do not outlive
  the computation.
\<close>

type_synonym ('a, 'g, 'ev) comp = "'g \<Rightarrow> (Standard_Failure + 'a) \<times> 'g \<times> 'ev list"

definition returnC :: "'a \<Rightarrow> ('a, 'g, 'ev) comp" where
  "returnC x = (\<lambda>g. (Inr x, g, []))"

text \<open>Sequencing: a thrown failure skips the rest of the function body.\<close>

definition bindC :: "('a, 'g, 'ev) comp \<Rightarrow> ('a \<Rightarrow> ('b, 'g, 'ev) comp) \<Rightarrow> ('b, 'g, 'ev) comp" where
  "bindC m f = (\<lambda>g.
     case m g of
       (Inl e, g1, evs1) \<Rightarrow> (Inl e, g1, evs1)
     | (Inr x, g1, evs1) \<Rightarrow> (case f x g1 of (r, g2, evs2) \<Rightarrow> (r, g2, evs1 @ evs2)))"

text \<open>A kernel call: run it on the static state and record that it was made.\<close>

definition invoke :: "'ev \<Rightarrow> ('a, 'g) kernel_fn \<Rightarrow> ('a, 'g, 'ev) comp" where
  "invoke ev fn = (\<lambda>g. case fn g of (r, g1) \<Rightarrow> (r, g1, [ev]))"

text \<open>\<^verbatim>\<open>std::ostringstream ss;\<close> declares a fresh, empty sink.\<close>

definition ostringstream_new :: "(ostringstream, 'g, ('sh, 'sw, 'iw) kernel_call) comp" where
  "ostringstream_new = (\<lambda>g. (Inr (ostringstream []), g, [New_ostringstream]))"

text \<open>A parameter with a default value: \<open>None\<close> is the call that omits it.\<close>

definition default_arg :: "'a \<Rightarrow> 'a option \<Rightarrow> 'a" where
  "default_arg d a = (case a of None \<Rightarrow> d | Some v \<Rightarrow> v)"

section \<open>The helpers\<close>

subsection \<open>\<^verbatim>\<open>ocjs_io_brep.cpp\<close>\<close>

definition BRep_WriteToString ::
  "('sh, 'g, 'sw, 'iw) kernel \<Rightarrow> 'sh \<Rightarrow> (string, 'g, ('sh, 'sw, 'iw) kernel_call) comp" where
  "BRep_WriteToString k shape =
     bindC ostringstream_new (\<lambda>ss.
     bindC (invoke (Call_BRepTools_Write shape ss) (BRepTools_Write k shape ss)) (\<lambda>ss.
     returnC (str ss)))"

subsection \<open>\<^verbatim>\<open>ocjs_io_dumpjson.cpp\<close>\<close>

definition Shape_DumpJsonToString ::
  "('sh, 'g, 'sw, 'iw) kernel \<Rightarrow> 'sh \<Rightarrow> Standard_Integer option
     \<Rightarrow> (string, 'g, ('sh, 'sw, 'iw) kernel_call) comp" where
  "Shape_DumpJsonToString k shape depth_arg =
     (let depth = default_arg (- 1) depth_arg in
      bindC ostringstream_new (\<lambda>ss.
      bindC (invoke (Call_DumpJson shape ss depth) (TopoDS_Shape_DumpJson k shape ss depth)) (\<lambda>ss.
      returnC (str ss))))"

subsection \<open>\<^verbatim>\<open>ocjs_io_iges.cpp\<close>\<close>

text \<open>
  The values returned by \<^verbatim>\<open>Init\<close>, \<^verbatim>\<open>AddShape\<close> and \<^verbatim>\<open>Write\<close> are discarded by the source;
  \<^verbatim>\<open>Standard_False\<close> is the second argument of \<^verbatim>\<open>Write\<close>.
\<close>

definition IGES_WriteToString ::
  "('sh, 'g, 'sw, 'iw) kernel \<Rightarrow> 'sh \<Rightarrow> (string, 'g, ('sh, 'sw, 'iw) kernel_call) comp" where
  "IGES_WriteToString k shape =
     bindC (invoke Call_IGESControl_Controller_Init (IGESControl_Controller_Init k)) (\<lambda>_.
     bindC (invoke New_IGESControl_Writer (IGESControl_Writer_new k)) (\<lambda>writer.
     bindC (invoke (Call_AddShape writer shape) (IGESControl_Writer_AddShape k writer shape))
       (\<lambda>(_, writer).
     bindC (invoke (Call_ComputeModel writer) (IGESControl_Writer_ComputeModel k writer))
       (\<lambda>writer.
     bindC ostringstream_new (\<lambda>ss.
     bindC (invoke (Call_IGES_Write writer ss False) (IGESControl_Writer_Write k writer ss False))
       (\<lambda>(_, writer, ss).
     returnC (str ss)))))))"

subsection \<open>\<^verbatim>\<open>ocjs_io_step.cpp\<close>\<close>

definition STEP_WriteToString ::
  "('sh, 'g, 'sw, 'iw) kernel \<Rightarrow> 'sh \<Rightarrow> STEPControl_StepModelType option
     \<Rightarrow> (string, 'g, ('sh, 'sw, 'iw) kernel_call) comp" where
  "STEP_WriteToString k shape mode_arg =
     (let mode = default_arg STEPControl_AsIs mode_arg in
      bindC (invoke New_STEPControl_Writer (STEPControl_Writer_new k)) (\<lambda>writer.
      bindC (invoke (Call_Transfer writer shape mode) (STEPControl_Writer_Transfer k writer shape mode))
        (\<lambda>(status, writer).
      if status \<noteq> IFSelect_RetDone then returnC []
      else
        bindC ostringstream_new (\<lambda>ss.
        bindC (invoke (Call_WriteStream writer ss) (STEPControl_Writer_WriteStream k writer ss))
          (\<lambda>(status, writer, ss).
        if status \<noteq> IFSelect_RetDone then returnC []
        else returnC (str ss))))))"

subsection \<open>\<^verbatim>\<open>ocjs_exception.cpp\<close>\<close>

text \<open>
  A \<^verbatim>\<open>Standard_Failure*\<close> is an address typed as pointing to a failure object;
  \<^verbatim>\<open>reinterpret_cast\<close> from \<^verbatim>\<open>intptr_t\<close> keeps the address and changes the type only.
  The width of \<^verbatim>\<open>intptr_t\<close> depends on the target and is left open.
\<close>

datatype 'addr Standard_Failure_ptr = Standard_Failure_ptr (address: 'addr)

definition reinterpret_cast_Standard_Failure :: "'a::len word \<Rightarrow> 'a word Standard_Failure_ptr" where
  "reinterpret_cast_Standard_Failure p = Standard_Failure_ptr p"

definition getStandard_FailureData ::
  "'a::len word \<Rightarrow> ('a word Standard_Failure_ptr, 'g, 'ev) comp" where
  "getStandard_FailureData exceptionPtr = returnC (reinterpret_cast_Standard_Failure exceptionPtr)"

text \<open>
  Reading through the pointer: the memory maps the addresses of live failure objects to
  the objects. This is what the caller does with the returned view, not the helper.
\<close>

definition deref ::
  "('a::len word \<rightharpoonup> Standard_Failure) \<Rightarrow> 'a word Standard_Failure_ptr \<Rightarrow> Standard_Failure option" where
  "deref mem p = mem (address p)"

section \<open>Observing a call\<close>

text \<open>The three components of what a helper yields.\<close>

abbreviation result_of :: "'r \<times> 'g \<times> 'c \<Rightarrow> 'r" where
  "result_of t \<equiv> fst t"

abbreviation statics_of :: "'r \<times> 'g \<times> 'c \<Rightarrow> 'g" where
  "statics_of t \<equiv> fst (snd t)"

abbreviation calls_of :: "'r \<times> 'g \<times> 'c \<Rightarrow> 'c" where
  "calls_of t \<equiv> snd (snd t)"

section \<open>A small kernel for concrete runs\<close>

text \<open>
  The theorems below hold for every kernel. To run the helpers on concrete inputs, here
  is a miniature kernel: three shapes, writers whose state is the list of shapes
  registered so far, and a natural number as static state. A vertex can be transferred
  as it is or as a curve set but not as a solid; a writer that holds nothing reports
  \<open>IFSelect_RetVoid\<close> when asked to write.
\<close>

datatype sample_shape = Null_Shape | Vertex | Box

fun sample_name :: "sample_shape \<Rightarrow> string" where
  "sample_name Null_Shape = ''''"
| "sample_name Vertex = ''Ve''"
| "sample_name Box = ''So''"

fun sample_applicable :: "sample_shape \<Rightarrow> STEPControl_StepModelType \<Rightarrow> bool" where
  "sample_applicable _ STEPControl_AsIs = True"
| "sample_applicable Box _ = True"
| "sample_applicable Vertex STEPControl_GeometricCurveSet = True"
| "sample_applicable _ _ = False"

definition sample_kernel :: "(sample_shape, nat, sample_shape list, sample_shape list) kernel" where
  "sample_kernel = \<lparr>
     BRepTools_Write = (\<lambda>sh ss g. (Inr (ostringstream (str ss @ ''CASCADE '' @ sample_name sh)), g)),
     TopoDS_Shape_DumpJson = (\<lambda>sh ss depth g.
        (Inr (ostringstream (str ss @ (if depth = 0 then ''{}'' else ''{'' @ sample_name sh @ ''}''))), g)),
     IGESControl_Controller_Init = (\<lambda>g. (Inr True, g)),
     IGESControl_Writer_new = (\<lambda>g. (Inr [], g)),
     IGESControl_Writer_AddShape = (\<lambda>w sh g. (Inr (sh \<noteq> Null_Shape, w @ [sh]), g)),
     IGESControl_Writer_ComputeModel = (\<lambda>w g. (Inr w, g)),
     IGESControl_Writer_Write = (\<lambda>w ss fnes g.
        (Inr (True, w, ostringstream (str ss @ (if fnes then ''F'' else ''S'') @ concat (map sample_name w))), g)),
     STEPControl_Writer_new = (\<lambda>g. (Inr [], g)),
     STEPControl_Writer_Transfer = (\<lambda>w sh m g.
        (Inr (if sample_applicable sh m
              then (IFSelect_RetDone, if sh = Null_Shape then w else w @ [sh])
              else (IFSelect_RetFail, w)), g)),
     STEPControl_Writer_WriteStream = (\<lambda>w ss g.
        (Inr (if w = [] then (IFSelect_RetVoid, w, ss)
              else (IFSelect_RetDone, w,
                    ostringstream (str ss @ ''ISO-10303-21;'' @ concat (map sample_name w)))), g))
   \<rparr>"

section \<open>What each helper does, path by path\<close>

lemma STEP_transfer_not_done:
  assumes "STEPControl_Writer_new k g = (Inr w, g1)"
      and "STEPControl_Writer_Transfer k w shape (default_arg STEPControl_AsIs mode_arg) g1 = (Inr (status, w1), g2)"
      and "status \<noteq> IFSelect_RetDone"
  shows "STEP_WriteToString k shape mode_arg g =
           (Inr [], g2, [New_STEPControl_Writer, Call_Transfer w shape (default_arg STEPControl_AsIs mode_arg)])"
  using assms
  by (simp add: STEP_WriteToString_def Let_def bindC_def invoke_def returnC_def)

lemma STEP_transfer_done:
  assumes "STEPControl_Writer_new k g = (Inr w, g1)"
      and "STEPControl_Writer_Transfer k w shape (default_arg STEPControl_AsIs mode_arg) g1 = (Inr (IFSelect_RetDone, w1), g2)"
      and "STEPControl_Writer_WriteStream k w1 (ostringstream []) g2 = (Inr (status, w2, ss), g3)"
  shows "STEP_WriteToString k shape mode_arg g =
           (Inr (if status \<noteq> IFSelect_RetDone then [] else str ss), g3,
            [New_STEPControl_Writer, Call_Transfer w shape (default_arg STEPControl_AsIs mode_arg),
             New_ostringstream, Call_WriteStream w1 (ostringstream [])])"
  using assms
  by (simp add: STEP_WriteToString_def Let_def bindC_def invoke_def returnC_def ostringstream_new_def)

lemma IGES_all_return:
  assumes "IGESControl_Controller_Init k g = (Inr b0, g1)"
      and "IGESControl_Writer_new k g1 = (Inr w, g2)"
      and "IGESControl_Writer_AddShape k w shape g2 = (Inr (b1, w1), g3)"
      and "IGESControl_Writer_ComputeModel k w1 g3 = (Inr w2, g4)"
      and "IGESControl_Writer_Write k w2 (ostringstream []) False g4 = (Inr (b2, w3, ss), g5)"
  shows "IGES_WriteToString k shape g =
           (Inr (str ss), g5,
            [Call_IGESControl_Controller_Init, New_IGESControl_Writer, Call_AddShape w shape,
             Call_ComputeModel w1, New_ostringstream, Call_IGES_Write w2 (ostringstream []) False])"
  using assms
  by (simp add: IGES_WriteToString_def Let_def bindC_def invoke_def returnC_def ostringstream_new_def)

lemma BRep_eq:
  "BRep_WriteToString k shape g =
     (case BRepTools_Write k shape (ostringstream []) g of
        (r, g1) \<Rightarrow> (map_sum id str r, g1, [New_ostringstream, Call_BRepTools_Write shape (ostringstream [])]))"
  by (simp add: BRep_WriteToString_def bindC_def invoke_def returnC_def ostringstream_new_def
      split: prod.splits sum.splits)

lemma DumpJson_eq:
  "Shape_DumpJsonToString k shape depth_arg g =
     (case TopoDS_Shape_DumpJson k shape (ostringstream []) (default_arg (- 1) depth_arg) g of
        (r, g1) \<Rightarrow> (map_sum id str r, g1,
           [New_ostringstream, Call_DumpJson shape (ostringstream []) (default_arg (- 1) depth_arg)]))"
  by (simp add: Shape_DumpJsonToString_def Let_def bindC_def invoke_def returnC_def ostringstream_new_def
      split: prod.splits sum.splits)

section \<open>STEP export: the two failure points\<close>

text \<open>
  Claim C1. For every kernel, shape and mode (given or omitted): when the writer is
  constructed and \<^verbatim>\<open>Transfer\<close> returns a status other than \<open>IFSelect_RetDone\<close>,
  \<open>STEP_WriteToString\<close> returns the empty string by normal return (\<open>Inr\<close>, not a thrown
  failure), and \<^verbatim>\<open>WriteStream\<close> is not among the calls it made.
\<close>

theorem STEP_transfer_failure_returns_empty:
  assumes "STEPControl_Writer_new k g = (Inr w, g1)"
      and "STEPControl_Writer_Transfer k w shape (default_arg STEPControl_AsIs mode_arg) g1
             = (Inr (status, w1), g2)"
      and "status \<noteq> IFSelect_RetDone"
  shows "result_of (STEP_WriteToString k shape mode_arg g) = Inr []
         \<and> (\<forall>w' ss. Call_WriteStream w' ss \<notin> set (calls_of (STEP_WriteToString k shape mode_arg g)))"
  using STEP_transfer_not_done [OF assms] by simp

text \<open>A vertex transferred as a manifold solid: the transfer fails, the result is empty.\<close>

theorem STEP_transfer_failure_returns_empty_witness:
  "STEPControl_Writer_new sample_kernel (0::nat) = (Inr [], 0)
   \<and> STEPControl_Writer_Transfer sample_kernel [] Vertex
         (default_arg STEPControl_AsIs (Some STEPControl_ManifoldSolidBrep)) 0
       = (Inr (IFSelect_RetFail, []), 0)
   \<and> IFSelect_RetFail \<noteq> IFSelect_RetDone
   \<and> result_of (STEP_WriteToString sample_kernel Vertex (Some STEPControl_ManifoldSolidBrep) 0) = Inr []
   \<and> (\<forall>w' ss. Call_WriteStream w' ss
          \<notin> set (calls_of (STEP_WriteToString sample_kernel Vertex (Some STEPControl_ManifoldSolidBrep) 0)))"
proof -
  have a: "STEPControl_Writer_new sample_kernel (0::nat) = (Inr [], 0)"
    by (simp add: sample_kernel_def)
  have b: "STEPControl_Writer_Transfer sample_kernel [] Vertex
             (default_arg STEPControl_AsIs (Some STEPControl_ManifoldSolidBrep)) 0
           = (Inr (IFSelect_RetFail, []), 0)"
    by (simp add: sample_kernel_def default_arg_def)
  have c: "IFSelect_RetFail \<noteq> IFSelect_RetDone" by simp
  show ?thesis
    using a b c STEP_transfer_failure_returns_empty [OF a b c] by simp
qed

text \<open>
  Claim C9. On the same path (transfer status not "done") the whole outcome is fixed: the
  empty string, the static state exactly as \<^verbatim>\<open>Transfer\<close> left it, and two calls only, the
  construction of the writer and the transfer. No \<^verbatim>\<open>std::ostringstream\<close> is constructed,
  so there is no sink and nothing is written into one.
\<close>

theorem STEP_transfer_failure_touches_no_sink:
  assumes "STEPControl_Writer_new k g = (Inr w, g1)"
      and "STEPControl_Writer_Transfer k w shape (default_arg STEPControl_AsIs mode_arg) g1
             = (Inr (status, w1), g2)"
      and "status \<noteq> IFSelect_RetDone"
  shows "STEP_WriteToString k shape mode_arg g
           = (Inr [], g2,
              [New_STEPControl_Writer, Call_Transfer w shape (default_arg STEPControl_AsIs mode_arg)])
         \<and> New_ostringstream \<notin> set (calls_of (STEP_WriteToString k shape mode_arg g))"
  using STEP_transfer_not_done [OF assms] by simp

text \<open>A null shape transferred as a faceted solid, from static state 7.\<close>

theorem STEP_transfer_failure_touches_no_sink_witness:
  "STEPControl_Writer_new sample_kernel (7::nat) = (Inr [], 7)
   \<and> STEPControl_Writer_Transfer sample_kernel [] Null_Shape
         (default_arg STEPControl_AsIs (Some STEPControl_FacetedBrep)) 7
       = (Inr (IFSelect_RetFail, []), 7)
   \<and> IFSelect_RetFail \<noteq> IFSelect_RetDone
   \<and> STEP_WriteToString sample_kernel Null_Shape (Some STEPControl_FacetedBrep) 7
       = (Inr [], 7,
          [New_STEPControl_Writer,
           Call_Transfer [] Null_Shape (default_arg STEPControl_AsIs (Some STEPControl_FacetedBrep))])
   \<and> New_ostringstream
       \<notin> set (calls_of (STEP_WriteToString sample_kernel Null_Shape (Some STEPControl_FacetedBrep) 7))"
proof -
  have a: "STEPControl_Writer_new sample_kernel (7::nat) = (Inr [], 7)"
    by (simp add: sample_kernel_def)
  have b: "STEPControl_Writer_Transfer sample_kernel [] Null_Shape
             (default_arg STEPControl_AsIs (Some STEPControl_FacetedBrep)) 7
           = (Inr (IFSelect_RetFail, []), 7)"
    by (simp add: sample_kernel_def default_arg_def)
  have c: "IFSelect_RetFail \<noteq> IFSelect_RetDone" by simp
  show ?thesis
    using a b c STEP_transfer_failure_touches_no_sink [OF a b c] by simp
qed

text \<open>
  Claim C2. When the transfer is "done", the sink is a fresh empty stream, and the result
  is decided by the status of \<^verbatim>\<open>WriteStream\<close>: the empty string if it is not "done",
  otherwise exactly what the sink holds after the write.
\<close>

theorem STEP_write_stage_result:
  assumes "STEPControl_Writer_new k g = (Inr w, g1)"
      and "STEPControl_Writer_Transfer k w shape (default_arg STEPControl_AsIs mode_arg) g1
             = (Inr (IFSelect_RetDone, w1), g2)"
      and "STEPControl_Writer_WriteStream k w1 (ostringstream []) g2 = (Inr (status, w2, ss), g3)"
  shows "result_of (STEP_WriteToString k shape mode_arg g)
           = Inr (if status \<noteq> IFSelect_RetDone then [] else str ss)"
  using STEP_transfer_done [OF assms] by simp

text \<open>
  Both branches: a vertex as it is gives the text written; a null shape leaves the writer
  with nothing to write, the status is \<open>IFSelect_RetVoid\<close> and the result is empty.
\<close>

theorem STEP_write_stage_result_witness:
  "(STEPControl_Writer_new sample_kernel (0::nat) = (Inr [], 0)
    \<and> STEPControl_Writer_Transfer sample_kernel [] Vertex (default_arg STEPControl_AsIs None) 0
        = (Inr (IFSelect_RetDone, [Vertex]), 0)
    \<and> STEPControl_Writer_WriteStream sample_kernel [Vertex] (ostringstream []) 0
        = (Inr (IFSelect_RetDone, [Vertex], ostringstream ''ISO-10303-21;Ve''), 0)
    \<and> result_of (STEP_WriteToString sample_kernel Vertex None 0) = Inr ''ISO-10303-21;Ve'')
   \<and> (STEPControl_Writer_Transfer sample_kernel [] Null_Shape (default_arg STEPControl_AsIs None) 0
        = (Inr (IFSelect_RetDone, []), 0)
    \<and> STEPControl_Writer_WriteStream sample_kernel [] (ostringstream []) 0
        = (Inr (IFSelect_RetVoid, [], ostringstream []), 0)
    \<and> result_of (STEP_WriteToString sample_kernel Null_Shape None 0) = Inr [])"
proof -
  have a: "STEPControl_Writer_new sample_kernel (0::nat) = (Inr [], 0)"
    by (simp add: sample_kernel_def)
  have b: "STEPControl_Writer_Transfer sample_kernel [] Vertex (default_arg STEPControl_AsIs None) 0
             = (Inr (IFSelect_RetDone, [Vertex]), 0)"
    by (simp add: sample_kernel_def default_arg_def)
  have c: "STEPControl_Writer_WriteStream sample_kernel [Vertex] (ostringstream []) 0
             = (Inr (IFSelect_RetDone, [Vertex], ostringstream ''ISO-10303-21;Ve''), 0)"
    by (simp add: sample_kernel_def)
  have b': "STEPControl_Writer_Transfer sample_kernel [] Null_Shape (default_arg STEPControl_AsIs None) 0
             = (Inr (IFSelect_RetDone, []), 0)"
    by (simp add: sample_kernel_def default_arg_def)
  have c': "STEPControl_Writer_WriteStream sample_kernel [] (ostringstream []) 0
             = (Inr (IFSelect_RetVoid, [], ostringstream []), 0)"
    by (simp add: sample_kernel_def)
  show ?thesis
    using a b c b' c' STEP_write_stage_result [OF a b c] STEP_write_stage_result [OF a b' c']
    by simp
qed

section \<open>IGES export\<close>

text \<open>
  Claim C4. When every kernel call returns, \<open>IGES_WriteToString\<close> makes exactly these
  calls, in this order: the initialisation of the static controller; the construction of
  a writer and \<^verbatim>\<open>AddShape\<close> of the shape on that writer; \<^verbatim>\<open>ComputeModel\<close> and then, on a
  fresh sink, \<^verbatim>\<open>Write\<close> with the flag \<^verbatim>\<open>Standard_False\<close>. The result is what the sink
  holds after the write, whatever the Booleans returned by the kernel were.
\<close>

theorem IGES_three_stages_in_order:
  assumes "IGESControl_Controller_Init k g = (Inr b0, g1)"
      and "IGESControl_Writer_new k g1 = (Inr w, g2)"
      and "IGESControl_Writer_AddShape k w shape g2 = (Inr (b1, w1), g3)"
      and "IGESControl_Writer_ComputeModel k w1 g3 = (Inr w2, g4)"
      and "IGESControl_Writer_Write k w2 (ostringstream []) False g4 = (Inr (b2, w3, ss), g5)"
  shows "result_of (IGES_WriteToString k shape g) = Inr (str ss)
         \<and> calls_of (IGES_WriteToString k shape g)
             = [Call_IGESControl_Controller_Init,
                New_IGESControl_Writer, Call_AddShape w shape,
                Call_ComputeModel w1, New_ostringstream, Call_IGES_Write w2 (ostringstream []) False]"
  using IGES_all_return [OF assms] by simp

text \<open>A box through the sample kernel.\<close>

theorem IGES_three_stages_in_order_witness:
  "IGESControl_Controller_Init sample_kernel (0::nat) = (Inr True, 0)
   \<and> IGESControl_Writer_new sample_kernel (0::nat) = (Inr [], 0)
   \<and> IGESControl_Writer_AddShape sample_kernel [] Box 0 = (Inr (True, [Box]), 0)
   \<and> IGESControl_Writer_ComputeModel sample_kernel [Box] 0 = (Inr [Box], 0)
   \<and> IGESControl_Writer_Write sample_kernel [Box] (ostringstream []) False 0
       = (Inr (True, [Box], ostringstream ''SSo''), 0)
   \<and> result_of (IGES_WriteToString sample_kernel Box 0) = Inr ''SSo''
   \<and> calls_of (IGES_WriteToString sample_kernel Box 0)
       = [Call_IGESControl_Controller_Init,
          New_IGESControl_Writer, Call_AddShape [] Box,
          Call_ComputeModel [Box], New_ostringstream, Call_IGES_Write [Box] (ostringstream []) False]"
proof -
  have a: "IGESControl_Controller_Init sample_kernel (0::nat) = (Inr True, 0)"
    by (simp add: sample_kernel_def)
  have b: "IGESControl_Writer_new sample_kernel (0::nat) = (Inr [], 0)"
    by (simp add: sample_kernel_def)
  have c: "IGESControl_Writer_AddShape sample_kernel [] Box 0 = (Inr (True, [Box]), 0)"
    by (simp add: sample_kernel_def)
  have d: "IGESControl_Writer_ComputeModel sample_kernel [Box] 0 = (Inr [Box], 0)"
    by (simp add: sample_kernel_def)
  have e: "IGESControl_Writer_Write sample_kernel [Box] (ostringstream []) False 0
             = (Inr (True, [Box], ostringstream ''SSo''), 0)"
    by (simp add: sample_kernel_def)
  show ?thesis
    using a b c d e IGES_three_stages_in_order [OF a b c d e] by simp
qed

section \<open>Native export\<close>

text \<open>
  Claim C5. \<open>BRep_WriteToString\<close> takes the shape and nothing else. It constructs a fresh
  empty sink, calls \<^verbatim>\<open>BRepTools::Write\<close> on the shape and that sink, and, when the writer
  returns, the result is exactly what the sink then holds; no other call is made.
\<close>

theorem BRep_single_stage:
  assumes "BRepTools_Write k shape (ostringstream []) g = (Inr ss, g1)"
  shows "BRep_WriteToString k shape g
           = (Inr (str ss), g1, [New_ostringstream, Call_BRepTools_Write shape (ostringstream [])])"
  using assms by (simp add: BRep_eq)

text \<open>A box through the sample kernel.\<close>

theorem BRep_single_stage_witness:
  "BRepTools_Write sample_kernel Box (ostringstream []) (0::nat) = (Inr (ostringstream ''CASCADE So''), 0)
   \<and> BRep_WriteToString sample_kernel Box 0
       = (Inr ''CASCADE So'', 0, [New_ostringstream, Call_BRepTools_Write Box (ostringstream [])])"
proof -
  have a: "BRepTools_Write sample_kernel Box (ostringstream []) (0::nat)
             = (Inr (ostringstream ''CASCADE So''), 0)"
    by (simp add: sample_kernel_def)
  show ?thesis
    using a BRep_single_stage [OF a] by simp
qed

section \<open>Debug dump\<close>

text \<open>
  Claim C6. \<open>Shape_DumpJsonToString\<close> constructs a fresh empty sink and calls the shape's
  \<^verbatim>\<open>DumpJson\<close> on it with the caller's depth, unchanged; when the dump returns, the
  result is exactly what the sink then holds. A call that omits the depth behaves as the
  call with depth \<open>- 1\<close>, the 32-bit integer whose signed value is \<open>-1\<close>.
\<close>

theorem DumpJson_depth_default:
  assumes "TopoDS_Shape_DumpJson k shape (ostringstream []) depth g = (Inr ss, g1)"
  shows "Shape_DumpJsonToString k shape (Some depth) g
           = (Inr (str ss), g1, [New_ostringstream, Call_DumpJson shape (ostringstream []) depth])
         \<and> Shape_DumpJsonToString k shape None = Shape_DumpJsonToString k shape (Some (- 1))
         \<and> sint (- 1 :: Standard_Integer) = - 1"
  using assms by (simp add: DumpJson_eq default_arg_def fun_eq_iff)

text \<open>Depth 0 and the omitted depth, on a box.\<close>

theorem DumpJson_depth_default_witness:
  "TopoDS_Shape_DumpJson sample_kernel Box (ostringstream []) 0 (0::nat) = (Inr (ostringstream ''{}''), 0)
   \<and> Shape_DumpJsonToString sample_kernel Box (Some 0) 0
       = (Inr ''{}'', 0, [New_ostringstream, Call_DumpJson Box (ostringstream []) 0])
   \<and> Shape_DumpJsonToString sample_kernel Box None (0::nat)
       = (Inr ''{So}'', 0, [New_ostringstream, Call_DumpJson Box (ostringstream []) (- 1)])"
proof -
  have a: "TopoDS_Shape_DumpJson sample_kernel Box (ostringstream []) 0 (0::nat)
             = (Inr (ostringstream ''{}''), 0)"
    by (simp add: sample_kernel_def)
  have b: "TopoDS_Shape_DumpJson sample_kernel Box (ostringstream []) (- 1) (0::nat)
             = (Inr (ostringstream ''{So}''), 0)"
    by (simp add: sample_kernel_def)
  show ?thesis
    using a DumpJson_depth_default [OF a] DumpJson_depth_default [OF b] by simp
qed

text \<open>
  Claim C10. For every 32-bit depth, negative or not, the only calls are the construction
  of the sink and \<^verbatim>\<open>DumpJson\<close> with that very depth: the helper neither checks nor clamps
  it. The outcome of the helper is the outcome of the dump: the text it wrote when it
  returns, its failure when it throws. The helper adds no failure of its own.
\<close>

theorem DumpJson_depth_unvalidated:
  "result_of (Shape_DumpJsonToString k shape (Some depth) g)
     = map_sum id str (fst (TopoDS_Shape_DumpJson k shape (ostringstream []) depth g))
   \<and> calls_of (Shape_DumpJsonToString k shape (Some depth) g)
     = [New_ostringstream, Call_DumpJson shape (ostringstream []) depth]"
  by (simp add: DumpJson_eq default_arg_def split: prod.splits)

text \<open>Depth \<open>-5\<close> is forwarded as it is, and the dump's text comes back.\<close>

theorem DumpJson_depth_unvalidated_witness:
  "sint (- 5 :: Standard_Integer) = - 5
   \<and> result_of (Shape_DumpJsonToString sample_kernel Vertex (Some (- 5)) (0::nat)) = Inr ''{Ve}''
   \<and> calls_of (Shape_DumpJsonToString sample_kernel Vertex (Some (- 5)) (0::nat))
       = [New_ostringstream, Call_DumpJson Vertex (ostringstream []) (- 5)]"
  using DumpJson_depth_unvalidated [of sample_kernel Vertex "- 5" "0::nat"]
  by (simp add: sample_kernel_def)

section \<open>The exception helper\<close>

text \<open>
  Claim C3. For every token and in every state, \<open>getStandard_FailureData\<close> returns
  normally, makes no kernel call, leaves the static state as it was, and yields the
  pointer whose address is the token: no check is made on the token. Through that
  pointer the caller reads the failure object that lives at the address, hence its message
  text and its dynamic type.
\<close>

theorem getStandard_FailureData_reinterprets:
  "getStandard_FailureData exceptionPtr g = (Inr (Standard_Failure_ptr exceptionPtr), g, [])
   \<and> (mem exceptionPtr = Some failure \<longrightarrow>
        map_option GetMessageString (deref mem (Standard_Failure_ptr exceptionPtr))
          = Some (GetMessageString failure)
        \<and> map_option DynamicType (deref mem (Standard_Failure_ptr exceptionPtr))
          = Some (DynamicType failure))"
  by (simp add: getStandard_FailureData_def reinterpret_cast_Standard_Failure_def returnC_def deref_def)

text \<open>A failure object at address 4096.\<close>

theorem getStandard_FailureData_reinterprets_witness:
  "[(4096 :: 32 word) \<mapsto> \<lparr>GetMessageString = ''command not done'', DynamicType = ''StdFail_NotDone''\<rparr>] 4096
     = Some \<lparr>GetMessageString = ''command not done'', DynamicType = ''StdFail_NotDone''\<rparr>
   \<and> getStandard_FailureData (4096 :: 32 word) () = (Inr (Standard_Failure_ptr 4096), (), ([] :: unit list))
   \<and> map_option GetMessageString
        (deref [(4096 :: 32 word) \<mapsto> \<lparr>GetMessageString = ''command not done'', DynamicType = ''StdFail_NotDone''\<rparr>]
           (Standard_Failure_ptr 4096))
       = Some ''command not done''
   \<and> map_option DynamicType
        (deref [(4096 :: 32 word) \<mapsto> \<lparr>GetMessageString = ''command not done'', DynamicType = ''StdFail_NotDone''\<rparr>]
           (Standard_Failure_ptr 4096))
       = Some ''StdFail_NotDone''"
  using getStandard_FailureData_reinterprets
          [of "4096 :: 32 word" "()"
              "[(4096 :: 32 word) \<mapsto> \<lparr>GetMessageString = ''command not done'', DynamicType = ''StdFail_NotDone''\<rparr>]"
              "\<lparr>GetMessageString = ''command not done'', DynamicType = ''StdFail_NotDone''\<rparr>",
           where ?'c = unit]
  by simp

section \<open>Writers are local to a call\<close>



end
